theory Spec2Isabelle
  imports Main
begin

section \<open>JSON values\<close>

text \<open>
  Request bodies (after \<^verbatim>\<open>bodyParser.json()\<close>) and response bodies (the argument of
  \<^verbatim>\<open>res.json\<close>) are JSON values. An object is the list of its properties; a property is
  read with \<open>field\<close>. The order of the properties carries no meaning. Of a number only
  the fact that it is a number is ever inspected.
\<close>

datatype json =
    JNull
  | JBool bool
  | JNum int
  | JStr string
  | JArr "json list"
  | JObj "(string \<times> json) list"

definition field :: "string \<Rightarrow> json \<Rightarrow> json option" where
  "field k j = (case j of JObj kvs \<Rightarrow> map_of kvs k | _ \<Rightarrow> None)"

fun typeName :: "json \<Rightarrow> string" where
  "typeName JNull = ''null''"
| "typeName (JBool b) = ''boolean''"
| "typeName (JNum n) = ''number''"
| "typeName (JStr s) = ''string''"
| "typeName (JArr xs) = ''array''"
| "typeName (JObj kvs) = ''object''"


section \<open>Errors\<close>

text \<open>
  The issues of a zod (version 3) error: \<open>InvalidType path expected received\<close> and
  \<open>TooSmall path minimum message\<close>. The other values are the errors Mongoose and the
  runtime raise: a document failing the model's validators (with the failing paths), a
  route parameter that is no ObjectId, a failure of the database, and a TypeError of the
  language itself.
\<close>

datatype zodIssue =
    InvalidType "string list" string string
  | TooSmall "string list" int string

fun issue_path :: "zodIssue \<Rightarrow> string list" where
  "issue_path (InvalidType p ex re) = p"
| "issue_path (TooSmall p m msg) = p"

fun issueJSON :: "zodIssue \<Rightarrow> json" where
  "issueJSON (InvalidType p ex re) =
     JObj [(''code'', JStr ''invalid_type''), (''expected'', JStr ex), (''received'', JStr re),
           (''path'', JArr (map JStr p)),
           (''message'', JStr (if re = ''undefined'' then ''Required''
                               else ''Expected '' @ ex @ '', received '' @ re))]"
| "issueJSON (TooSmall p m msg) =
     JObj [(''code'', JStr ''too_small''), (''minimum'', JNum m), (''type'', JStr ''string''),
           (''inclusive'', JBool True), (''exact'', JBool False),
           (''message'', JStr msg), (''path'', JArr (map JStr p))]"

datatype error =
    ZodError "zodIssue list"
  | ValidationError "string list"
  | CastError string
  | MongoError string
  | TypeError string

text \<open>
  \<^verbatim>\<open>e.errors\<close>, as the \<^verbatim>\<open>catch\<close> blocks read it: the issue array of a zod error, the
  per-path object of a Mongoose validation error (abridged to kind and path), and
  \<^verbatim>\<open>undefined\<close> (\<open>None\<close>) for every other error.
\<close>

fun errors :: "error \<Rightarrow> json option" where
  "errors (ZodError is) = Some (JArr (map issueJSON is))"
| "errors (ValidationError ps) =
     Some (JObj (map (\<lambda>p. (p, JObj [(''kind'', JStr ''required''), (''path'', JStr p)])) ps))"
| "errors (CastError v) = None"
| "errors (MongoError m) = None"
| "errors (TypeError m) = None"


section \<open>The request schema \<^verbatim>\<open>todoSchema\<close>\<close>

text \<open>
  \<^verbatim>\<open>z.object({ text: z.string().min(1, "Text is required"), completed: z.boolean().optional() })\<close>.
  An object schema rejects a value that is no object with one issue at the root path,
  checks its own keys in the order of the shape, and returns an object holding these
  keys only: every other key of the input is dropped. \<^verbatim>\<open>.partial()\<close> makes every key
  optional.
\<close>

definition text_issues :: "bool \<Rightarrow> json option \<Rightarrow> zodIssue list" where
  "text_issues optional v =
     (case v of
        None \<Rightarrow> (if optional then [] else [InvalidType [''text''] ''string'' ''undefined''])
      | Some (JStr s) \<Rightarrow> (if length s < 1 then [TooSmall [''text''] 1 ''Text is required''] else [])
      | Some j \<Rightarrow> [InvalidType [''text''] ''string'' (typeName j)])"

definition completed_issues :: "json option \<Rightarrow> zodIssue list" where
  "completed_issues v =
     (case v of
        None \<Rightarrow> []
      | Some (JBool b) \<Rightarrow> []
      | Some j \<Rightarrow> [InvalidType [''completed''] ''boolean'' (typeName j)])"

definition object_issues :: "bool \<Rightarrow> json \<Rightarrow> zodIssue list" where
  "object_issues optional b =
     (case b of
        JObj kvs \<Rightarrow> text_issues optional (map_of kvs ''text'') @ completed_issues (map_of kvs ''completed'')
      | j \<Rightarrow> [InvalidType [] ''object'' (typeName j)])"

definition string_prop :: "string \<Rightarrow> json \<Rightarrow> string option" where
  "string_prop k b = (case field k b of Some (JStr s) \<Rightarrow> Some s | _ \<Rightarrow> None)"

definition bool_prop :: "string \<Rightarrow> json \<Rightarrow> bool option" where
  "bool_prop k b = (case field k b of Some (JBool c) \<Rightarrow> Some c | _ \<Rightarrow> None)"

record todoData =
  data_text :: string
  data_completed :: "bool option"

record todoPatch =
  patch_text :: "string option"
  patch_completed :: "bool option"

definition todoSchema_parse :: "json \<Rightarrow> error + todoData" where
  "todoSchema_parse b =
     (if object_issues False b \<noteq> [] then Inl (ZodError (object_issues False b))
      else case string_prop ''text'' b of
             Some s \<Rightarrow> Inr \<lparr>data_text = s, data_completed = bool_prop ''completed'' b\<rparr>
           | None \<Rightarrow> Inl (ZodError [InvalidType [''text''] ''string'' ''undefined'']))"

definition todoSchema_partial_parse :: "json \<Rightarrow> error + todoPatch" where
  "todoSchema_partial_parse b =
     (if object_issues True b \<noteq> [] then Inl (ZodError (object_issues True b))
      else Inr \<lparr>patch_text = string_prop ''text'' b, patch_completed = bool_prop ''completed'' b\<rparr>)"


section \<open>The stores\<close>

text \<open>
  A document of the model \<^verbatim>\<open>Todo\<close> (\<^verbatim>\<open>models/todo.js\<close>): the three paths of the schema and
  the \<^verbatim>\<open>_id\<close> Mongoose adds. An ObjectId is kept as the string that stands for it in JSON.
  The collection \<^verbatim>\<open>todos\<close> is the list of its documents in store order; the collection
  \<^verbatim>\<open>sessions\<close> holds one record for each session, with its expiry in milliseconds.
\<close>

type_synonym objectId = string

record todo =
  todo_id :: objectId
  todo_text :: string
  completed :: bool
  sessionId :: string

record session_rec =
  sess_id :: string
  expires :: int

record state =
  todos :: "todo list"
  sessions :: "session_rec list"

text \<open>
  What a handler gets from outside the program: whether the database answers, how Mongoose
  casts a route parameter to an ObjectId (\<open>None\<close>: the cast fails), and the ObjectId that
  \<^verbatim>\<open>new Todo\<close> generates.
\<close>

record env =
  db_up :: bool
  castObjectId :: "string \<Rightarrow> objectId option"
  newObjectId :: objectId

text \<open>
  A document sent with \<^verbatim>\<open>res.json\<close> is serialised whole: the schema declares no
  transformation and no hidden path.
\<close>

definition toJSON :: "todo \<Rightarrow> json" where
  "toJSON t =
     JObj [(''_id'', JStr (todo_id t)), (''text'', JStr (todo_text t)),
           (''completed'', JBool (completed t)), (''sessionId'', JStr (sessionId t)),
           (''__v'', JNum 0)]"

definition down :: error where
  "down = MongoError ''database unavailable''"

definition Todo_find :: "env \<Rightarrow> string \<Rightarrow> state \<Rightarrow> error + todo list" where
  "Todo_find e sid s =
     (if db_up e then Inr (filter (\<lambda>t. sessionId t = sid) (todos s)) else Inl down)"

text \<open>
  \<^verbatim>\<open>new Todo({...todoData, sessionId: req.sessionID})\<close>: the session identifier is written
  after the spread, \<^verbatim>\<open>completed\<close> takes the default of the schema when absent.
\<close>

definition new_Todo :: "env \<Rightarrow> todoData \<Rightarrow> string \<Rightarrow> todo" where
  "new_Todo e d sid =
     \<lparr>todo_id = newObjectId e, todo_text = data_text d,
      completed = (case data_completed d of Some c \<Rightarrow> c | None \<Rightarrow> False),
      sessionId = sid\<rparr>"

text \<open>
  \<^verbatim>\<open>todo.save()\<close>: the validators of the schema run first (\<^verbatim>\<open>required\<close> on a String path
  rejects the empty string), then the document is inserted; the collection refuses a
  second document with the same \<^verbatim>\<open>_id\<close>.
\<close>

definition required_failures :: "todo \<Rightarrow> string list" where
  "required_failures t =
     (if todo_text t = [] then [''text''] else []) @
     (if sessionId t = [] then [''sessionId''] else [])"

definition save :: "env \<Rightarrow> todo \<Rightarrow> state \<Rightarrow> error + state" where
  "save e t s =
     (if required_failures t \<noteq> [] then Inl (ValidationError (required_failures t))
      else if \<not> db_up e then Inl down
      else if todo_id t \<in> set (map todo_id (todos s)) then Inl (MongoError ''E11000 duplicate key'')
      else Inr (s\<lparr>todos := todos s @ [t]\<rparr>))"

definition matches :: "objectId \<Rightarrow> string \<Rightarrow> todo \<Rightarrow> bool" where
  "matches oid sid t = (todo_id t = oid \<and> sessionId t = sid)"

text \<open>The update document holds the keys of the parsed patch only; they are set, the rest stays.\<close>

definition apply_patch :: "todoPatch \<Rightarrow> todo \<Rightarrow> todo" where
  "apply_patch p t =
     t\<lparr>todo_text := (case patch_text p of Some x \<Rightarrow> x | None \<Rightarrow> todo_text t),
       completed := (case patch_completed p of Some c \<Rightarrow> c | None \<Rightarrow> completed t)\<rparr>"

fun update_first :: "(todo \<Rightarrow> bool) \<Rightarrow> (todo \<Rightarrow> todo) \<Rightarrow> todo list \<Rightarrow> todo option \<times> todo list" where
  "update_first P f [] = (None, [])"
| "update_first P f (t # ts) =
     (if P t then (Some (f t), f t # ts)
      else (case update_first P f ts of (r, ts') \<Rightarrow> (r, t # ts')))"

fun delete_first :: "(todo \<Rightarrow> bool) \<Rightarrow> todo list \<Rightarrow> todo option \<times> todo list" where
  "delete_first P [] = (None, [])"
| "delete_first P (t # ts) =
     (if P t then (Some t, ts)
      else (case delete_first P ts of (r, ts') \<Rightarrow> (r, t # ts')))"

text \<open>
  \<^verbatim>\<open>Todo.findOneAndUpdate({_id, sessionId}, todoData, {new: true})\<close> and
  \<^verbatim>\<open>Todo.findOneAndDelete({_id, sessionId})\<close>: the filter is cast first, then the first
  document matching both conditions is changed (and returned as changed) or removed;
  \<open>None\<close> is \<^verbatim>\<open>null\<close>, no document matched.
\<close>

definition findOneAndUpdate ::
  "env \<Rightarrow> string \<Rightarrow> string \<Rightarrow> todoPatch \<Rightarrow> state \<Rightarrow> error + (todo option \<times> state)" where
  "findOneAndUpdate e idp sid p s =
     (case castObjectId e idp of
        None \<Rightarrow> Inl (CastError idp)
      | Some oid \<Rightarrow>
          if \<not> db_up e then Inl down
          else (case update_first (matches oid sid) (apply_patch p) (todos s) of
                  (r, ts) \<Rightarrow> Inr (r, s\<lparr>todos := ts\<rparr>)))"

definition findOneAndDelete ::
  "env \<Rightarrow> string \<Rightarrow> string \<Rightarrow> state \<Rightarrow> error + (todo option \<times> state)" where
  "findOneAndDelete e idp sid s =
     (case castObjectId e idp of
        None \<Rightarrow> Inl (CastError idp)
      | Some oid \<Rightarrow>
          if \<not> db_up e then Inl down
          else (case delete_first (matches oid sid) (todos s) of
                  (r, ts) \<Rightarrow> Inr (r, s\<lparr>todos := ts\<rparr>)))"


section \<open>The four request handlers\<close>

text \<open>
  A request as the handlers see it: the session identifier the session middleware
  attached (\<^verbatim>\<open>req.sessionID\<close>, which \<^verbatim>\<open>req.session.id\<close> repeats), the parsed body and
  the route parameter \<^verbatim>\<open>:id\<close>. A handler either writes a response or, where it has no
  \<^verbatim>\<open>try\<close> around an awaited call that fails, ends with the error unhandled and writes
  nothing.
\<close>

record request =
  sessionID :: string
  body :: json
  params_id :: string

record response =
  status :: nat
  resp_body :: json

datatype outcome = Responded response | Unhandled error

definition ok_body :: "json \<Rightarrow> json" where
  "ok_body r = JObj [(''ok'', JBool True), (''result'', r)]"

definition error_body :: "error \<Rightarrow> json" where
  "error_body e =
     JObj ((''ok'', JBool False) # (case errors e of None \<Rightarrow> [] | Some j \<Rightarrow> [(''error'', j)]))"

definition not_found :: response where
  "not_found = \<lparr>status = 404, resp_body = JObj [(''ok'', JBool False), (''error'', JStr ''not_found'')]\<rparr>"

definition handle_get :: "env \<Rightarrow> request \<Rightarrow> state \<Rightarrow> outcome \<times> state" where
  "handle_get e req s =
     (if sessionID req = [] then (Responded \<lparr>status = 200, resp_body = ok_body (JArr [])\<rparr>, s)
      else case Todo_find e (sessionID req) s of
             Inl err \<Rightarrow> (Unhandled err, s)
           | Inr ts \<Rightarrow> (Responded \<lparr>status = 200, resp_body = ok_body (JArr (map toJSON ts))\<rparr>, s))"

definition handle_post :: "env \<Rightarrow> request \<Rightarrow> state \<Rightarrow> outcome \<times> state" where
  "handle_post e req s =
     (case todoSchema_parse (body req) of
        Inl err \<Rightarrow> (Responded \<lparr>status = 400, resp_body = error_body err\<rparr>, s)
      | Inr todoData \<Rightarrow>
          (let t = new_Todo e todoData (sessionID req)
           in case save e t s of
                Inl err \<Rightarrow> (Responded \<lparr>status = 400, resp_body = error_body err\<rparr>, s)
              | Inr s' \<Rightarrow> (Responded \<lparr>status = 200, resp_body = ok_body (toJSON t)\<rparr>, s')))"

definition handle_patch :: "env \<Rightarrow> request \<Rightarrow> state \<Rightarrow> outcome \<times> state" where
  "handle_patch e req s =
     (case todoSchema_partial_parse (body req) of
        Inl err \<Rightarrow> (Responded \<lparr>status = 400, resp_body = error_body err\<rparr>, s)
      | Inr todoData \<Rightarrow>
          (case findOneAndUpdate e (params_id req) (sessionID req) todoData s of
             Inl err \<Rightarrow> (Responded \<lparr>status = 400, resp_body = error_body err\<rparr>, s)
           | Inr (None, s') \<Rightarrow> (Responded not_found, s')
           | Inr (Some t, s') \<Rightarrow> (Responded \<lparr>status = 200, resp_body = ok_body (toJSON t)\<rparr>, s')))"

definition handle_delete :: "env \<Rightarrow> request \<Rightarrow> state \<Rightarrow> outcome \<times> state" where
  "handle_delete e req s =
     (case findOneAndDelete e (params_id req) (sessionID req) s of
        Inl err \<Rightarrow> (Unhandled err, s)
      | Inr (None, s') \<Rightarrow> (Responded not_found, s')
      | Inr (Some t, s') \<Rightarrow> (Responded \<lparr>status = 200, resp_body = ok_body JNull\<rparr>, s'))"


section \<open>The expiry sweeper\<close>

text \<open>
  \<^verbatim>\<open>getAllSessions\<close> calls \<^verbatim>\<open>Promise\<close> as a function, without \<^verbatim>\<open>new\<close>: the call throws a
  TypeError before the executor passed to it, the one that would ask the session store for
  all its records, is ever run.
\<close>

definition store_all :: "env \<Rightarrow> state \<Rightarrow> error + session_rec list" where
  "store_all e s = (if db_up e then Inr (sessions s) else Inl down)"

definition Promise_call :: "error + 'a \<Rightarrow> error + 'a" where
  "Promise_call executor = Inl (TypeError ''Promise constructor cannot be invoked without new'')"

definition getAllSessions :: "env \<Rightarrow> state \<Rightarrow> error + session_rec list" where
  "getAllSessions e s = Promise_call (store_all e s)"

text \<open>
  The callback given to \<^verbatim>\<open>nodeCron.schedule\<close>. Its body is written over the two calls it
  makes to the stores: \<open>listing\<close>, the enumeration of the sessions, and \<open>cleanup\<close>, what
  \<^verbatim>\<open>store.destroy(sessionId).then(Todo.deleteMany({ sessionId }))\<close> does for one expired
  session (the state it leaves and the error it ends with, if any). \<^verbatim>\<open>Promise.all\<close> over
  the expired sessions fails with the first error among them. The whole body stands in
  one \<^verbatim>\<open>try\<close>, whose \<^verbatim>\<open>catch\<close> writes the error to the console.
\<close>

datatype console = ConsoleLog nat | ConsoleError error

datatype settled = Fulfilled | Rejected error

definition expiredSessionIds :: "int \<Rightarrow> session_rec list \<Rightarrow> string list" where
  "expiredSessionIds now ss = map sess_id (filter (\<lambda>r. expires r < now) ss)"

fun promise_all ::
  "(string \<Rightarrow> state \<Rightarrow> error option \<times> state) \<Rightarrow> string list \<Rightarrow> state \<Rightarrow> error option \<times> state" where
  "promise_all cleanup [] s = (None, s)"
| "promise_all cleanup (x # xs) s =
     (case cleanup x s of
        (r, s1) \<Rightarrow> (case promise_all cleanup xs s1 of
                      (r', s2) \<Rightarrow> ((case r of Some err \<Rightarrow> Some err | None \<Rightarrow> r'), s2)))"

definition sweep_body ::
  "(state \<Rightarrow> error + session_rec list) \<Rightarrow> (string \<Rightarrow> state \<Rightarrow> error option \<times> state) \<Rightarrow>
   int \<Rightarrow> state \<Rightarrow> (error + nat) \<times> state" where
  "sweep_body listing cleanup now s =
     (case listing s of
        Inl err \<Rightarrow> (Inl err, s)
      | Inr ss \<Rightarrow>
          (let ids = expiredSessionIds now ss
           in case promise_all cleanup ids s of
                (Some err, s') \<Rightarrow> (Inl err, s')
              | (None, s') \<Rightarrow> (Inr (length ids), s')))"

definition sweep_with ::
  "(state \<Rightarrow> error + session_rec list) \<Rightarrow> (string \<Rightarrow> state \<Rightarrow> error option \<times> state) \<Rightarrow>
   int \<Rightarrow> state \<Rightarrow> settled \<times> console list \<times> state" where
  "sweep_with listing cleanup now s =
     (case sweep_body listing cleanup now s of
        (Inr n, s') \<Rightarrow> (Fulfilled, [ConsoleLog n], s')
      | (Inl err, s') \<Rightarrow> (Fulfilled, [ConsoleError err], s'))"

definition cron_callback ::
  "env \<Rightarrow> (string \<Rightarrow> state \<Rightarrow> error option \<times> state) \<Rightarrow> int \<Rightarrow> state \<Rightarrow> settled \<times> console list \<times> state" where
  "cron_callback e cleanup now s = sweep_with (getAllSessions e) cleanup now s"

text \<open>
  The schedule runs the callback at each of its times, one after the other. A callback
  whose promise is rejected is taken to end the process: the ticks after it do not run.
  The result counts the ticks that ran.
\<close>

fun schedule ::
  "(int \<Rightarrow> state \<Rightarrow> settled \<times> console list \<times> state) \<Rightarrow> int list \<Rightarrow> state \<Rightarrow> nat \<times> console list \<times> state" where
  "schedule cb [] s = (0, [], s)"
| "schedule cb (now # later) s =
     (case cb now s of
        (Fulfilled, out, s') \<Rightarrow>
          (case schedule cb later s' of (n, out', s'') \<Rightarrow> (Suc n, out @ out', s''))
      | (Rejected err, out, s') \<Rightarrow> (Suc 0, out, s'))"


section \<open>Concrete stores and requests\<close>

text \<open>
  The inputs at which the theorems below are evaluated. \<open>castHex24\<close> is the cast used
  there: a string of 24 hexadecimal digits, in either case, stands for the ObjectId it
  spells, which is kept in lower case; any other string is refused.
\<close>

definition hexdigit :: "char \<Rightarrow> bool" where
  "hexdigit c = (c \<in> set ''0123456789abcdefABCDEF'')"

definition lowerHex :: "char \<Rightarrow> char" where
  "lowerHex c =
     (if c = CHR ''A'' then CHR ''a'' else if c = CHR ''B'' then CHR ''b''
      else if c = CHR ''C'' then CHR ''c'' else if c = CHR ''D'' then CHR ''d''
      else if c = CHR ''E'' then CHR ''e'' else if c = CHR ''F'' then CHR ''f'' else c)"

definition castHex24 :: "string \<Rightarrow> objectId option" where
  "castHex24 p = (if length p = 24 \<and> list_all hexdigit p then Some (map lowerHex p) else None)"

definition id1 :: objectId where
  "id1 = ''65f1a0000000000000000001''"

definition id2 :: objectId where
  "id2 = ''65f1a0000000000000000002''"

definition env1 :: env where
  "env1 = \<lparr>db_up = True, castObjectId = castHex24, newObjectId = id1\<rparr>"

definition env2 :: env where
  "env2 = \<lparr>db_up = True, castObjectId = castHex24, newObjectId = id2\<rparr>"

definition env_down :: env where
  "env_down = \<lparr>db_up = False, castObjectId = castHex24, newObjectId = id2\<rparr>"

definition empty_store :: state where
  "empty_store = \<lparr>todos = [], sessions = []\<rparr>"

definition milk :: todo where
  "milk = \<lparr>todo_id = id1, todo_text = ''Buy milk'', completed = False, sessionId = ''s1''\<rparr>"

definition store1 :: state where
  "store1 = \<lparr>todos = [milk],
             sessions = [\<lparr>sess_id = ''s1'', expires = 1000\<rparr>, \<lparr>sess_id = ''s2'', expires = 5000\<rparr>]\<rparr>"

definition failing_cleanup :: "string \<Rightarrow> state \<Rightarrow> error option \<times> state" where
  "failing_cleanup sid s = (Some down, s)"

text \<open>The items a success response carries: the elements of a result array, or the one result object.\<close>

definition served_items :: "outcome \<Rightarrow> json list" where
  "served_items out =
     (case out of
        Responded r \<Rightarrow>
          (if status r = 200
           then (case field ''result'' (resp_body r) of
                   Some (JArr js) \<Rightarrow> js
                 | Some (JObj kvs) \<Rightarrow> [JObj kvs]
                 | _ \<Rightarrow> [])
           else [])
      | Unhandled err \<Rightarrow> [])"


section \<open>The first matching document\<close>

lemma update_first_none:
  "\<forall>u\<in>set ts. \<not> P u \<Longrightarrow> update_first P f ts = (None, ts)"
  by (induction ts) auto

lemma delete_first_none:
  "\<forall>u\<in>set ts. \<not> P u \<Longrightarrow> delete_first P ts = (None, ts)"
  by (induction ts) auto

lemma same_id_same_todo:
  "distinct (map todo_id ts) \<Longrightarrow> t \<in> set ts \<Longrightarrow> u \<in> set ts \<Longrightarrow> todo_id u = todo_id t \<Longrightarrow> u = t"
  by (meson distinct_map inj_onD)

lemma update_first_owner:
  "distinct (map todo_id ts) \<Longrightarrow> t \<in> set ts \<Longrightarrow>
   update_first (matches (todo_id t) (sessionId t)) f ts =
     (Some (f t), map (\<lambda>u. if todo_id u = todo_id t then f u else u) ts)"
proof (induction ts)
  case Nil
  then show ?case by simp
next
  case (Cons a ts)
  show ?case
  proof (cases "a = t")
    case True
    from Cons.prems True have "todo_id t \<notin> set (map todo_id ts)"
      by simp
    then have "\<forall>u\<in>set ts. todo_id u \<noteq> todo_id t"
      by (metis image_eqI set_map)
    then have "map (\<lambda>u. if todo_id u = todo_id t then f u else u) ts = ts"
      by (induction ts) auto
    with True show ?thesis by (simp add: matches_def)
  next
    case False
    with Cons.prems have mem: "t \<in> set ts" and d: "distinct (map todo_id ts)"
      and ne: "todo_id a \<noteq> todo_id t"
      by auto
    from Cons.IH [OF d mem] ne show ?thesis by (simp add: matches_def)
  qed
qed

lemma delete_first_owner:
  "distinct (map todo_id ts) \<Longrightarrow> t \<in> set ts \<Longrightarrow>
   delete_first (matches (todo_id t) (sessionId t)) ts = (Some t, remove1 t ts)"
proof (induction ts)
  case Nil
  then show ?case by simp
next
  case (Cons a ts)
  show ?case
  proof (cases "a = t")
    case True
    then show ?thesis by (simp add: matches_def)
  next
    case False
    with Cons.prems have mem: "t \<in> set ts" and d: "distinct (map todo_id ts)"
      and ne: "todo_id a \<noteq> todo_id t"
      by auto
    from Cons.IH [OF d mem] ne False show ?thesis by (simp add: matches_def)
  qed
qed

lemma no_match_other_session:
  "distinct (map todo_id ts) \<Longrightarrow> t \<in> set ts \<Longrightarrow> sid \<noteq> sessionId t \<Longrightarrow>
   \<forall>u\<in>set ts. \<not> matches (todo_id t) sid u"
  using same_id_same_todo by (fastforce simp: matches_def)


section \<open>Validation of the request body\<close>

lemma parse_text_rejected:
  assumes "map_of kvs ''text'' = None \<or> map_of kvs ''text'' = Some (JStr [])"
  shows "\<exists>i is. todoSchema_parse (JObj kvs) = Inl (ZodError (i # is)) \<and> issue_path i = [''text'']"
  using assms by (auto simp: todoSchema_parse_def object_issues_def text_issues_def)

lemma parse_accepts:
  assumes "todoSchema_parse b = Inr d"
  shows "data_text d \<noteq> [] \<and> field ''text'' b = Some (JStr (data_text d))"
  using assms
  by (auto simp: todoSchema_parse_def object_issues_def text_issues_def string_prop_def field_def
      split: if_splits option.splits json.splits)

lemma parse_text_completed_omitted:
  assumes "map_of kvs ''text'' = Some (JStr txt)" "txt \<noteq> []" "map_of kvs ''completed'' = None"
  shows "todoSchema_parse (JObj kvs) = Inr \<lparr>data_text = txt, data_completed = None\<rparr>"
  using assms
  by (simp add: todoSchema_parse_def object_issues_def text_issues_def completed_issues_def
      string_prop_def bool_prop_def field_def)

lemma parse_reads_two_keys:
  assumes "map_of kvs ''text'' = map_of kvs' ''text''" "map_of kvs ''completed'' = map_of kvs' ''completed''"
  shows "todoSchema_parse (JObj kvs) = todoSchema_parse (JObj kvs')"
proof -
  have "string_prop ''text'' (JObj kvs) = string_prop ''text'' (JObj kvs')"
    and "bool_prop ''completed'' (JObj kvs) = bool_prop ''completed'' (JObj kvs')"
    and "object_issues False (JObj kvs) = object_issues False (JObj kvs')"
    using assms by (simp_all add: string_prop_def bool_prop_def field_def object_issues_def)
  then show ?thesis by (simp add: todoSchema_parse_def split: option.splits)
qed


section \<open>Create\<close>

lemma post_accepted:
  assumes "todoSchema_parse (body req) = Inr d" "db_up e" "sessionID req \<noteq> []"
    "newObjectId e \<notin> todo_id ` set (todos s)"
  shows "handle_post e req s =
     (Responded \<lparr>status = 200, resp_body = ok_body (toJSON (new_Todo e d (sessionID req)))\<rparr>,
      s\<lparr>todos := todos s @ [new_Todo e d (sessionID req)]\<rparr>)"
proof -
  have "required_failures (new_Todo e d (sessionID req)) = []"
    using parse_accepts [OF assms(1)] assms(3) by (simp add: required_failures_def new_Todo_def)
  moreover have "todo_id (new_Todo e d (sessionID req)) = newObjectId e"
    by (simp add: new_Todo_def)
  ultimately show ?thesis
    using assms by (simp add: handle_post_def save_def Let_def)
qed

lemma post_rejected:
  assumes "todoSchema_parse (body req) = Inl err"
  shows "handle_post e req s = (Responded \<lparr>status = 400, resp_body = error_body err\<rparr>, s)"
  using assms by (simp add: handle_post_def)

lemma post_not_object:
  assumes "\<forall>kvs. body req \<noteq> JObj kvs"
  shows "handle_post e req s =
     (Responded \<lparr>status = 400,
                 resp_body = JObj [(''ok'', JBool False),
                                   (''error'', JArr [issueJSON (InvalidType [] ''object'' (typeName (body req)))])]\<rparr>,
      s)"
proof -
  have "object_issues False (body req) = [InvalidType [] ''object'' (typeName (body req))]"
    using assms by (cases "body req") (simp_all add: object_issues_def)
  then have "todoSchema_parse (body req) = Inl (ZodError [InvalidType [] ''object'' (typeName (body req))])"
    by (simp add: todoSchema_parse_def)
  from post_rejected [OF this] show ?thesis
    by (simp add: error_body_def)
qed

text \<open>
  Claim C4, as amended. Create answers 400 with a validation error whose first issue
  names the path \<open>text\<close> whenever the body is a JSON object whose \<open>text\<close> is missing or
  the empty string; a body that is no JSON object is answered 400 with one issue at the
  root path; either way the store is left as it was. For a body that passes validation
  (the database answering, the session identifier non-empty and the generated ObjectId
  unused) Create appends a new item owned by the caller's session and answers 200 with
  it.
\<close>

theorem create_validates_text:
  "(body req = JObj kvs \<and> (map_of kvs ''text'' = None \<or> map_of kvs ''text'' = Some (JStr [])) \<longrightarrow>
      (\<exists>i is. handle_post e req s =
                 (Responded \<lparr>status = 400,
                             resp_body = JObj [(''ok'', JBool False),
                                               (''error'', JArr (map issueJSON (i # is)))]\<rparr>, s)
              \<and> issue_path i = [''text'']))
   \<and> ((\<forall>kvs'. body req \<noteq> JObj kvs') \<longrightarrow>
        handle_post e req s =
          (Responded \<lparr>status = 400,
                      resp_body = JObj [(''ok'', JBool False),
                                        (''error'', JArr [issueJSON (InvalidType [] ''object'' (typeName (body req)))])]\<rparr>,
           s))
   \<and> (todoSchema_parse (body req) = Inr d \<and> db_up e \<and> sessionID req \<noteq> []
        \<and> newObjectId e \<notin> todo_id ` set (todos s) \<longrightarrow>
      handle_post e req s =
        (Responded \<lparr>status = 200, resp_body = ok_body (toJSON (new_Todo e d (sessionID req)))\<rparr>,
         s\<lparr>todos := todos s @ [new_Todo e d (sessionID req)]\<rparr>)
      \<and> sessionId (new_Todo e d (sessionID req)) = sessionID req)"
proof (intro conjI impI)
  assume a: "body req = JObj kvs \<and> (map_of kvs ''text'' = None \<or> map_of kvs ''text'' = Some (JStr []))"
  then obtain i "is" where p: "todoSchema_parse (body req) = Inl (ZodError (i # is))"
    and i: "issue_path i = [''text'']"
    using parse_text_rejected [of kvs] by auto
  from post_rejected [OF p, of e s] i
  show "\<exists>i is. handle_post e req s =
                 (Responded \<lparr>status = 400,
                             resp_body = JObj [(''ok'', JBool False),
                                               (''error'', JArr (map issueJSON (i # is)))]\<rparr>, s)
              \<and> issue_path i = [''text'']"
    by (auto simp: error_body_def)
next
  assume "\<forall>kvs'. body req \<noteq> JObj kvs'"
  then show "handle_post e req s =
          (Responded \<lparr>status = 400,
                      resp_body = JObj [(''ok'', JBool False),
                                        (''error'', JArr [issueJSON (InvalidType [] ''object'' (typeName (body req)))])]\<rparr>,
           s)"
    by (rule post_not_object)
next
  assume a: "todoSchema_parse (body req) = Inr d \<and> db_up e \<and> sessionID req \<noteq> []
        \<and> newObjectId e \<notin> todo_id ` set (todos s)"
  then show "handle_post e req s =
        (Responded \<lparr>status = 200, resp_body = ok_body (toJSON (new_Todo e d (sessionID req)))\<rparr>,
         s\<lparr>todos := todos s @ [new_Todo e d (sessionID req)]\<rparr>)"
    using post_accepted by blast
next
  show "sessionId (new_Todo e d (sessionID req)) = sessionID req"
    by (simp add: new_Todo_def)
qed

theorem create_validates_text_witness:
  "handle_post env1 \<lparr>sessionID = ''s1'', body = JObj [(''text'', JStr [])], params_id = []\<rparr> empty_store =
     (Responded \<lparr>status = 400,
        resp_body = JObj [(''ok'', JBool False),
          (''error'', JArr [issueJSON (TooSmall [''text''] 1 ''Text is required'')])]\<rparr>, empty_store)
   \<and> handle_post env1 \<lparr>sessionID = ''s1'', body = JNull, params_id = []\<rparr> empty_store =
     (Responded \<lparr>status = 400,
        resp_body = JObj [(''ok'', JBool False),
          (''error'', JArr [issueJSON (InvalidType [] ''object'' ''null'')])]\<rparr>, empty_store)
   \<and> todoSchema_parse (JObj [(''text'', JStr ''Buy milk'')]) = Inr \<lparr>data_text = ''Buy milk'', data_completed = None\<rparr>
   \<and> handle_post env1 \<lparr>sessionID = ''s1'', body = JObj [(''text'', JStr ''Buy milk'')], params_id = []\<rparr> empty_store =
     (Responded \<lparr>status = 200, resp_body = ok_body (toJSON milk)\<rparr>, store1\<lparr>sessions := []\<rparr>)"
proof -
  have p: "todoSchema_parse (JObj [(''text'', JStr ''Buy milk'')]) = Inr \<lparr>data_text = ''Buy milk'', data_completed = None\<rparr>"
    by (simp add: parse_text_completed_omitted)
  have 1: "handle_post env1 \<lparr>sessionID = ''s1'', body = JObj [(''text'', JStr [])], params_id = []\<rparr> empty_store =
     (Responded \<lparr>status = 400,
        resp_body = JObj [(''ok'', JBool False),
          (''error'', JArr [issueJSON (TooSmall [''text''] 1 ''Text is required'')])]\<rparr>, empty_store)"
    using create_validates_text [of "\<lparr>sessionID = ''s1'', body = JObj [(''text'', JStr [])], params_id = []\<rparr>"
        "[(''text'', JStr [])]" env1 empty_store]
    by (simp add: handle_post_def todoSchema_parse_def object_issues_def text_issues_def
        completed_issues_def error_body_def)
  have n: "\<forall>kvs'. body \<lparr>sessionID = ''s1'', body = JNull, params_id = []\<rparr> \<noteq> JObj kvs'"
    by simp
  have 3: "handle_post env1 \<lparr>sessionID = ''s1'', body = JNull, params_id = []\<rparr> empty_store =
     (Responded \<lparr>status = 400,
        resp_body = JObj [(''ok'', JBool False),
          (''error'', JArr [issueJSON (InvalidType [] ''object'' ''null'')])]\<rparr>, empty_store)"
    using create_validates_text [of "\<lparr>sessionID = ''s1'', body = JNull, params_id = []\<rparr>"
        "[]" env1 empty_store] n
    by simp
  have 2: "handle_post env1 \<lparr>sessionID = ''s1'', body = JObj [(''text'', JStr ''Buy milk'')], params_id = []\<rparr> empty_store =
     (Responded \<lparr>status = 200, resp_body = ok_body (toJSON milk)\<rparr>, store1\<lparr>sessions := []\<rparr>)"
    using create_validates_text [of "\<lparr>sessionID = ''s1'', body = JObj [(''text'', JStr ''Buy milk'')], params_id = []\<rparr>"
        "[]" env1 empty_store "\<lparr>data_text = ''Buy milk'', data_completed = None\<rparr>"] p
    by (simp add: env1_def empty_store_def new_Todo_def milk_def store1_def)
  from p 1 2 3 show ?thesis by simp
qed

text \<open>
  Claim C4 as first stated has every Create whose body lacks \<open>text\<close> answered with an
  error that names \<open>text\<close>. The body parser lets a JSON array through to the handler:
  the array \<open>[]\<close> has no \<open>text\<close>, the answer is 400, the store is left as it was, and
  the one issue of the error is at the root path, not at \<open>text\<close>.
\<close>

theorem create_array_body_issue_at_root:
  "handle_post env1 \<lparr>sessionID = ''s1'', body = JArr [], params_id = []\<rparr> empty_store =
     (Responded \<lparr>status = 400,
        resp_body = JObj [(''ok'', JBool False),
          (''error'', JArr [issueJSON (InvalidType [] ''object'' ''array'')])]\<rparr>, empty_store)
   \<and> field ''text'' (JArr []) = None
   \<and> issue_path (InvalidType [] ''object'' ''array'') \<noteq> [''text'']
   \<and> issueJSON (InvalidType [] ''object'' ''array'') =
       JObj [(''code'', JStr ''invalid_type''), (''expected'', JStr ''object''), (''received'', JStr ''array''),
             (''path'', JArr []), (''message'', JStr ''Expected object, received array'')]"
  by (simp add: handle_post_def todoSchema_parse_def object_issues_def error_body_def field_def)


text \<open>
  Claim C5. For every non-empty \<open>txt\<close>, a Create whose body carries \<open>text = txt\<close> and no
  \<open>completed\<close> succeeds, and a List under the same session identifier then answers 200
  with a result array holding an item whose \<open>text\<close> is \<open>txt\<close> and whose \<open>completed\<close> is
  false (the database answering, the session identifier non-empty, the generated
  ObjectId unused).
\<close>

theorem create_then_list:
  assumes "body req = JObj kvs" "map_of kvs ''text'' = Some (JStr txt)" "txt \<noteq> []"
    and "map_of kvs ''completed'' = None"
    and "db_up e" "sessionID req \<noteq> []" "newObjectId e \<notin> todo_id ` set (todos s)"
    and "db_up e'" "sessionID req' = sessionID req"
  shows "\<exists>r js. fst (handle_post e req s) = Responded r \<and> status r = 200 \<and>
           fst (handle_get e' req' (snd (handle_post e req s))) =
             Responded \<lparr>status = 200, resp_body = ok_body (JArr js)\<rparr> \<and>
           (\<exists>j\<in>set js. field ''text'' j = Some (JStr txt) \<and> field ''completed'' j = Some (JBool False))"
proof -
  let ?d = "\<lparr>data_text = txt, data_completed = None\<rparr>"
  let ?t = "new_Todo e ?d (sessionID req)"
  let ?s1 = "s\<lparr>todos := todos s @ [?t]\<rparr>"
  have p: "todoSchema_parse (body req) = Inr ?d"
    using assms(1-4) by (simp add: parse_text_completed_omitted)
  have post: "handle_post e req s =
      (Responded \<lparr>status = 200, resp_body = ok_body (toJSON ?t)\<rparr>, ?s1)"
    using post_accepted [OF p assms(5) assms(6) assms(7)] .
  let ?js = "map toJSON (filter (\<lambda>u. sessionId u = sessionID req') (todos ?s1))"
  have get: "handle_get e' req' ?s1 = (Responded \<lparr>status = 200, resp_body = ok_body (JArr ?js)\<rparr>, ?s1)"
    using assms(6,8,9) by (simp add: handle_get_def Todo_find_def)
  have mem: "toJSON ?t \<in> set ?js"
    using assms(9) by (simp add: new_Todo_def)
  have shape: "field ''text'' (toJSON ?t) = Some (JStr txt) \<and> field ''completed'' (toJSON ?t) = Some (JBool False)"
    by (simp add: toJSON_def field_def new_Todo_def)
  have "\<exists>j\<in>set ?js. field ''text'' j = Some (JStr txt) \<and> field ''completed'' j = Some (JBool False)"
  proof (rule bexI [where x = "toJSON ?t"])
    show "field ''text'' (toJSON ?t) = Some (JStr txt) \<and> field ''completed'' (toJSON ?t) = Some (JBool False)"
      by (rule shape)
    show "toJSON ?t \<in> set ?js"
      by (rule mem)
  qed
  then have "fst (handle_post e req s) = Responded \<lparr>status = 200, resp_body = ok_body (toJSON ?t)\<rparr> \<and>
      status \<lparr>status = 200, resp_body = ok_body (toJSON ?t)\<rparr> = 200 \<and>
      fst (handle_get e' req' (snd (handle_post e req s))) =
             Responded \<lparr>status = 200, resp_body = ok_body (JArr ?js)\<rparr> \<and>
      (\<exists>j\<in>set ?js. field ''text'' j = Some (JStr txt) \<and> field ''completed'' j = Some (JBool False))"
    by (simp only: post get fst_conv snd_conv response.select_convs simp_thms)
  then show ?thesis by (intro exI)
qed


theorem create_then_list_witness:
  "fst (handle_get env2 \<lparr>sessionID = ''s1'', body = JObj [], params_id = []\<rparr>
          (snd (handle_post env1 \<lparr>sessionID = ''s1'', body = JObj [(''text'', JStr ''Buy milk'')], params_id = []\<rparr>
                  empty_store))) =
     Responded \<lparr>status = 200, resp_body = ok_body (JArr [toJSON milk])\<rparr>
   \<and> field ''text'' (toJSON milk) = Some (JStr ''Buy milk'')
   \<and> field ''completed'' (toJSON milk) = Some (JBool False)"
proof -
  let ?req = "\<lparr>sessionID = ''s1'', body = JObj [(''text'', JStr ''Buy milk'')], params_id = []\<rparr>"
  let ?req' = "\<lparr>sessionID = ''s1'', body = JObj [], params_id = []\<rparr>"
  have h1: "body ?req = JObj [(''text'', JStr ''Buy milk'')]" by simp
  have h2: "map_of [(''text'', JStr ''Buy milk'')] ''text'' = Some (JStr ''Buy milk'')" by simp
  have h3: "''Buy milk'' \<noteq> []" by simp
  have h4: "map_of [(''text'', JStr ''Buy milk'')] ''completed'' = None" by simp
  have h5: "db_up env1" by (simp add: env1_def)
  have h6: "sessionID ?req \<noteq> []" by simp
  have h7: "newObjectId env1 \<notin> todo_id ` set (todos empty_store)" by (simp add: empty_store_def)
  have h8: "db_up env2" by (simp add: env2_def)
  have h9: "sessionID ?req' = sessionID ?req" by simp
  have post: "handle_post env1 ?req empty_store =
      (Responded \<lparr>status = 200, resp_body = ok_body (toJSON milk)\<rparr>, \<lparr>todos = [milk], sessions = []\<rparr>)"
    by (simp add: handle_post_def todoSchema_parse_def object_issues_def text_issues_def
        completed_issues_def string_prop_def bool_prop_def field_def new_Todo_def save_def
        required_failures_def env1_def empty_store_def milk_def Let_def)
  have get: "handle_get env2 ?req' \<lparr>todos = [milk], sessions = []\<rparr> =
      (Responded \<lparr>status = 200, resp_body = ok_body (JArr [toJSON milk])\<rparr>, \<lparr>todos = [milk], sessions = []\<rparr>)"
    by (simp add: handle_get_def Todo_find_def env2_def milk_def)
  show ?thesis
    using create_then_list [OF h1 h2 h3 h4 h5 h6 h7 h8 h9] post get
    by (simp add: toJSON_def field_def milk_def)
qed


section \<open>Update\<close>

lemma patch_owner:
  assumes "t \<in> set (todos s)" "distinct (map todo_id (todos s))"
    and "castObjectId e (params_id req) = Some (todo_id t)" "sessionID req = sessionId t" "db_up e"
    and "todoSchema_partial_parse (body req) = Inr p"
  shows "handle_patch e req s =
     (Responded \<lparr>status = 200, resp_body = ok_body (toJSON (apply_patch p t))\<rparr>,
      s\<lparr>todos := map (\<lambda>u. if u = t then apply_patch p t else u) (todos s)\<rparr>)"
proof -
  have "map (\<lambda>u. if todo_id u = todo_id t then apply_patch p u else u) (todos s) =
        map (\<lambda>u. if u = t then apply_patch p t else u) (todos s)"
    using same_id_same_todo [OF assms(2) assms(1)] by (intro map_cong) auto
  with update_first_owner [OF assms(2) assms(1), of "apply_patch p"] assms(3-6)
  show ?thesis by (simp add: handle_patch_def findOneAndUpdate_def)
qed

lemma partial_parse_fields:
  assumes "todoSchema_partial_parse b = Inr p"
  shows "(field ''text'' b = None \<longrightarrow> patch_text p = None) \<and>
         (field ''completed'' b = None \<longrightarrow> patch_completed p = None)"
  using assms
  by (auto simp: todoSchema_partial_parse_def string_prop_def bool_prop_def split: if_splits)

text \<open>
  Claim C6. For an item \<open>t\<close> of the store addressed by its id under its own session, an
  Update whose body has \<open>completed: true\<close> and no \<open>text\<close> answers 200 with \<open>t\<close> where only
  \<open>completed\<close> is set to true, and stores exactly that in place of \<open>t\<close>, every other
  document staying as it was. For every accepted patch the id and the session
  identifier stay, and a field absent from the body keeps its value.
\<close>

theorem patch_completed_only:
  assumes "t \<in> set (todos s)" "distinct (map todo_id (todos s))"
    and "castObjectId e (params_id req) = Some (todo_id t)" "sessionID req = sessionId t" "db_up e"
  shows "(body req = JObj kvs \<and> map_of kvs ''text'' = None \<and> map_of kvs ''completed'' = Some (JBool True) \<longrightarrow>
           handle_patch e req s =
             (Responded \<lparr>status = 200, resp_body = ok_body (toJSON (t\<lparr>completed := True\<rparr>))\<rparr>,
              s\<lparr>todos := map (\<lambda>u. if u = t then t\<lparr>completed := True\<rparr> else u) (todos s)\<rparr>))
       \<and> (todoSchema_partial_parse (body req) = Inr p \<longrightarrow>
           handle_patch e req s =
             (Responded \<lparr>status = 200, resp_body = ok_body (toJSON (apply_patch p t))\<rparr>,
              s\<lparr>todos := map (\<lambda>u. if u = t then apply_patch p t else u) (todos s)\<rparr>)
           \<and> todo_id (apply_patch p t) = todo_id t \<and> sessionId (apply_patch p t) = sessionId t
           \<and> (field ''text'' (body req) = None \<longrightarrow> todo_text (apply_patch p t) = todo_text t)
           \<and> (field ''completed'' (body req) = None \<longrightarrow> completed (apply_patch p t) = completed t))"
proof (rule conjI; rule impI)
  assume b: "body req = JObj kvs \<and> map_of kvs ''text'' = None \<and> map_of kvs ''completed'' = Some (JBool True)"
  let ?p = "\<lparr>patch_text = None, patch_completed = Some True\<rparr>"
  have "todoSchema_partial_parse (body req) = Inr ?p"
    using b by (simp add: todoSchema_partial_parse_def object_issues_def text_issues_def
        completed_issues_def string_prop_def bool_prop_def field_def)
  from patch_owner [OF assms this]
  show "handle_patch e req s =
             (Responded \<lparr>status = 200, resp_body = ok_body (toJSON (t\<lparr>completed := True\<rparr>))\<rparr>,
              s\<lparr>todos := map (\<lambda>u. if u = t then t\<lparr>completed := True\<rparr> else u) (todos s)\<rparr>)"
    by (simp add: apply_patch_def)
next
  assume p: "todoSchema_partial_parse (body req) = Inr p"
  from partial_parse_fields [OF p]
  have "todo_id (apply_patch p t) = todo_id t \<and> sessionId (apply_patch p t) = sessionId t
        \<and> (field ''text'' (body req) = None \<longrightarrow> todo_text (apply_patch p t) = todo_text t)
        \<and> (field ''completed'' (body req) = None \<longrightarrow> completed (apply_patch p t) = completed t)"
    by (auto simp: apply_patch_def)
  with patch_owner [OF assms p]
  show "handle_patch e req s =
             (Responded \<lparr>status = 200, resp_body = ok_body (toJSON (apply_patch p t))\<rparr>,
              s\<lparr>todos := map (\<lambda>u. if u = t then apply_patch p t else u) (todos s)\<rparr>)
           \<and> todo_id (apply_patch p t) = todo_id t \<and> sessionId (apply_patch p t) = sessionId t
           \<and> (field ''text'' (body req) = None \<longrightarrow> todo_text (apply_patch p t) = todo_text t)
           \<and> (field ''completed'' (body req) = None \<longrightarrow> completed (apply_patch p t) = completed t)"
    by (rule conjI)
qed


theorem patch_completed_only_witness:
  "handle_patch env1 \<lparr>sessionID = ''s1'', body = JObj [(''completed'', JBool True)], params_id = id1\<rparr> store1 =
     (Responded \<lparr>status = 200, resp_body = ok_body (toJSON (milk\<lparr>completed := True\<rparr>))\<rparr>,
      store1\<lparr>todos := [milk\<lparr>completed := True\<rparr>]\<rparr>)
   \<and> todo_text (milk\<lparr>completed := True\<rparr>) = ''Buy milk''
   \<and> todoSchema_partial_parse (JObj [(''completed'', JBool True)]) =
       Inr \<lparr>patch_text = None, patch_completed = Some True\<rparr>
   \<and> todo_text (apply_patch \<lparr>patch_text = None, patch_completed = Some True\<rparr> milk) = todo_text milk"
proof -
  let ?req = "\<lparr>sessionID = ''s1'', body = JObj [(''completed'', JBool True)], params_id = id1\<rparr>"
  have h1: "milk \<in> set (todos store1)" by (simp add: store1_def)
  have h2: "distinct (map todo_id (todos store1))" by (simp add: store1_def)
  have h3: "castObjectId env1 (params_id ?req) = Some (todo_id milk)"
    by (simp add: env1_def castHex24_def lowerHex_def id1_def hexdigit_def milk_def)
  have h4: "sessionID ?req = sessionId milk" by (simp add: milk_def)
  have h5: "db_up env1" by (simp add: env1_def)
  have p: "todoSchema_partial_parse (JObj [(''completed'', JBool True)]) =
       Inr \<lparr>patch_text = None, patch_completed = Some True\<rparr>"
    by (simp add: todoSchema_partial_parse_def object_issues_def text_issues_def
        completed_issues_def string_prop_def bool_prop_def field_def)
  show ?thesis
    using patch_completed_only [OF h1 h2 h3 h4 h5, of "[(''completed'', JBool True)]"
        "\<lparr>patch_text = None, patch_completed = Some True\<rparr>"] p
    by (simp add: store1_def milk_def field_def)
qed


section \<open>Delete\<close>

text \<open>
  Claim C7. For an item \<open>t\<close> of the store addressed by its id under its own session,
  Delete answers 200 with \<open>{ok: true, result: null}\<close> and removes \<open>t\<close>; the same Delete
  on the resulting store answers 404 with \<open>{ok: false, error: "not_found"}\<close> and
  changes nothing.
\<close>

theorem delete_twice:
  assumes "t \<in> set (todos s)" "distinct (map todo_id (todos s))"
    and "castObjectId e (params_id req) = Some (todo_id t)" "sessionID req = sessionId t" "db_up e"
  shows "handle_delete e req s =
           (Responded \<lparr>status = 200, resp_body = JObj [(''ok'', JBool True), (''result'', JNull)]\<rparr>,
            s\<lparr>todos := remove1 t (todos s)\<rparr>)
       \<and> t \<notin> set (remove1 t (todos s))
       \<and> handle_delete e req (s\<lparr>todos := remove1 t (todos s)\<rparr>) =
           (Responded \<lparr>status = 404, resp_body = JObj [(''ok'', JBool False), (''error'', JStr ''not_found'')]\<rparr>,
            s\<lparr>todos := remove1 t (todos s)\<rparr>)"
proof -
  have d: "distinct (todos s)"
    using assms(2) by (rule distinct_map [THEN iffD1, THEN conjunct1])
  then have gone: "t \<notin> set (remove1 t (todos s))"
    by simp
  have "\<forall>u\<in>set (remove1 t (todos s)). \<not> matches (todo_id t) (sessionId t) u"
  proof
    fix u assume u: "u \<in> set (remove1 t (todos s))"
    then have "u \<in> set (todos s)" and "u \<noteq> t"
      using d by auto
    then show "\<not> matches (todo_id t) (sessionId t) u"
      using same_id_same_todo [OF assms(2) assms(1)] by (auto simp: matches_def)
  qed
  then have second: "delete_first (matches (todo_id t) (sessionId t)) (remove1 t (todos s)) = (None, remove1 t (todos s))"
    by (rule delete_first_none)
  from delete_first_owner [OF assms(2) assms(1)] second gone assms(3-5)
  show ?thesis
    by (simp add: handle_delete_def findOneAndDelete_def ok_body_def not_found_def)
qed

theorem delete_twice_witness:
  "handle_delete env1 \<lparr>sessionID = ''s1'', body = JObj [], params_id = id1\<rparr> store1 =
     (Responded \<lparr>status = 200, resp_body = JObj [(''ok'', JBool True), (''result'', JNull)]\<rparr>,
      store1\<lparr>todos := []\<rparr>)
   \<and> handle_delete env1 \<lparr>sessionID = ''s1'', body = JObj [], params_id = id1\<rparr> (store1\<lparr>todos := []\<rparr>) =
     (Responded \<lparr>status = 404, resp_body = JObj [(''ok'', JBool False), (''error'', JStr ''not_found'')]\<rparr>,
      store1\<lparr>todos := []\<rparr>)"
proof -
  let ?req = "\<lparr>sessionID = ''s1'', body = JObj [], params_id = id1\<rparr>"
  have h1: "milk \<in> set (todos store1)" by (simp add: store1_def)
  have h2: "distinct (map todo_id (todos store1))" by (simp add: store1_def)
  have h3: "castObjectId env1 (params_id ?req) = Some (todo_id milk)"
    by (simp add: env1_def castHex24_def lowerHex_def id1_def hexdigit_def milk_def)
  have h4: "sessionID ?req = sessionId milk" by (simp add: milk_def)
  have h5: "db_up env1" by (simp add: env1_def)
  have r: "remove1 milk (todos store1) = []" by (simp add: store1_def)
  show ?thesis
    using delete_twice [OF h1 h2 h3 h4 h5] by (simp only: r)
qed


section \<open>Isolation of sessions\<close>

lemma update_first_some:
  "update_first P f ts = (Some t', ts') \<Longrightarrow> \<exists>u\<in>set ts. P u \<and> t' = f u"
  by (induction ts arbitrary: ts') (auto split: if_splits prod.splits)

lemma get_keeps_store: "snd (handle_get e req s) = s"
  by (simp add: handle_get_def split: sum.splits)

lemma get_served:
  "set (served_items (fst (handle_get e req s))) \<subseteq> toJSON ` {u \<in> set (todos s). sessionId u = sessionID req}"
proof (cases "sessionID req \<noteq> [] \<and> db_up e")
  case True
  then have "served_items (fst (handle_get e req s)) =
      map toJSON (filter (\<lambda>t. sessionId t = sessionID req) (todos s))"
    by (simp add: handle_get_def served_items_def ok_body_def field_def Todo_find_def)
  then show ?thesis by auto
next
  case False
  then have "served_items (fst (handle_get e req s)) = []"
    by (auto simp: handle_get_def served_items_def ok_body_def field_def Todo_find_def)
  then show ?thesis by simp
qed

lemma patch_invalid:
  assumes "todoSchema_partial_parse (body req) = Inl err"
  shows "handle_patch e req s = (Responded \<lparr>status = 400, resp_body = error_body err\<rparr>, s)"
  using assms by (simp add: handle_patch_def)

lemma patch_other_session:
  assumes "t \<in> set (todos s)" "distinct (map todo_id (todos s))" "sessionID req \<noteq> sessionId t"
    and "castObjectId e (params_id req) = Some (todo_id t)"
    and "todoSchema_partial_parse (body req) = Inr p"
  shows "handle_patch e req s =
     (if db_up e then Responded not_found else Responded \<lparr>status = 400, resp_body = error_body down\<rparr>, s)"
  using assms update_first_none [OF no_match_other_session [OF assms(2) assms(1) assms(3)], of "apply_patch p"]
  by (simp add: handle_patch_def findOneAndUpdate_def)

lemma delete_other_session:
  assumes "t \<in> set (todos s)" "distinct (map todo_id (todos s))" "sessionID req \<noteq> sessionId t"
    and "castObjectId e (params_id req) = Some (todo_id t)"
  shows "handle_delete e req s = (if db_up e then Responded not_found else Unhandled down, s)"
  using assms delete_first_none [OF no_match_other_session [OF assms(2) assms(1) assms(3)]]
  by (simp add: handle_delete_def findOneAndDelete_def)

text \<open>
  Claim C2, as amended. Let \<open>t\<close> be an item of the store, owned by a session other than
  the caller's. List under the caller's session keeps the store and returns no element
  with the id of \<open>t\<close>. Update and Delete under the caller's session addressed to the id
  of \<open>t\<close> keep the store, \<open>t\<close> included. Delete answers 404 \<open>not_found\<close>; Update answers
  404 \<open>not_found\<close> when its body passes validation, and 400 with the validation error
  when it does not (the database answering).
\<close>

theorem session_isolation:
  assumes "t \<in> set (todos s)" "distinct (map todo_id (todos s))"
    and "sessionID lreq \<noteq> sessionId t"
    and "sessionID req \<noteq> sessionId t" "castObjectId e (params_id req) = Some (todo_id t)"
  shows "snd (handle_get e lreq s) = s
       \<and> (\<forall>j\<in>set (served_items (fst (handle_get e lreq s))). field ''_id'' j \<noteq> Some (JStr (todo_id t)))
       \<and> snd (handle_patch e req s) = s
       \<and> snd (handle_delete e req s) = s
       \<and> (db_up e \<longrightarrow> fst (handle_delete e req s) = Responded not_found)
       \<and> (db_up e \<and> todoSchema_partial_parse (body req) = Inr p \<longrightarrow>
            fst (handle_patch e req s) = Responded not_found)
       \<and> (todoSchema_partial_parse (body req) = Inl err \<longrightarrow>
            fst (handle_patch e req s) = Responded \<lparr>status = 400, resp_body = error_body err\<rparr>)"
proof -
  have list: "\<forall>j\<in>set (served_items (fst (handle_get e lreq s))). field ''_id'' j \<noteq> Some (JStr (todo_id t))"
  proof
    fix j assume "j \<in> set (served_items (fst (handle_get e lreq s)))"
    with get_served obtain u where u: "u \<in> set (todos s)" "sessionId u = sessionID lreq" "j = toJSON u"
      by blast
    with assms(3) have "u \<noteq> t" by auto
    with same_id_same_todo [OF assms(2) assms(1) u(1)] have "todo_id u \<noteq> todo_id t" by auto
    with u(3) show "field ''_id'' j \<noteq> Some (JStr (todo_id t))"
      by (simp add: toJSON_def field_def)
  qed
  have patch: "snd (handle_patch e req s) = s"
  proof (cases "todoSchema_partial_parse (body req)")
    case (Inl err')
    then show ?thesis by (simp add: patch_invalid)
  next
    case (Inr p')
    from patch_other_session [OF assms(1,2,4,5) Inr] show ?thesis by simp
  qed
  have patch404: "db_up e \<and> todoSchema_partial_parse (body req) = Inr p \<longrightarrow>
            fst (handle_patch e req s) = Responded not_found"
    using patch_other_session [OF assms(1,2,4,5)] by simp
  have patch400: "todoSchema_partial_parse (body req) = Inl err \<longrightarrow>
            fst (handle_patch e req s) = Responded \<lparr>status = 400, resp_body = error_body err\<rparr>"
    by (simp add: patch_invalid)
  have del: "snd (handle_delete e req s) = s" "db_up e \<longrightarrow> fst (handle_delete e req s) = Responded not_found"
    using delete_other_session [OF assms(1,2,4,5)] by simp_all
  from get_keeps_store list patch del patch404 patch400 show ?thesis
    by (intro conjI)
qed

theorem session_isolation_witness:
  "handle_get env2 \<lparr>sessionID = ''s2'', body = JObj [], params_id = []\<rparr> store1 =
     (Responded \<lparr>status = 200, resp_body = ok_body (JArr [])\<rparr>, store1)
   \<and> handle_patch env2 \<lparr>sessionID = ''s2'', body = JObj [(''completed'', JBool True)], params_id = id1\<rparr> store1 =
     (Responded not_found, store1)
   \<and> handle_delete env2 \<lparr>sessionID = ''s2'', body = JObj [(''completed'', JBool True)], params_id = id1\<rparr> store1 =
     (Responded not_found, store1)
   \<and> handle_patch env2 \<lparr>sessionID = ''s2'', body = JObj [(''text'', JStr [])], params_id = id1\<rparr> store1 =
     (Responded \<lparr>status = 400,
                 resp_body = error_body (ZodError [TooSmall [''text''] 1 ''Text is required''])\<rparr>, store1)"
proof -
  let ?lreq = "\<lparr>sessionID = ''s2'', body = JObj [], params_id = []\<rparr>"
  let ?req = "\<lparr>sessionID = ''s2'', body = JObj [(''completed'', JBool True)], params_id = id1\<rparr>"
  let ?bad = "\<lparr>sessionID = ''s2'', body = JObj [(''text'', JStr [])], params_id = id1\<rparr>"
  have h1: "milk \<in> set (todos store1)" by (simp add: store1_def)
  have h2: "distinct (map todo_id (todos store1))" by (simp add: store1_def)
  have h3: "sessionID ?lreq \<noteq> sessionId milk" by (simp add: milk_def)
  have h4: "sessionID ?req \<noteq> sessionId milk" by (simp add: milk_def)
  have h5: "castObjectId env2 (params_id ?req) = Some (todo_id milk)"
    by (simp add: env2_def castHex24_def lowerHex_def id1_def hexdigit_def milk_def)
  have h4': "sessionID ?bad \<noteq> sessionId milk" by (simp add: milk_def)
  have h5': "castObjectId env2 (params_id ?bad) = Some (todo_id milk)"
    by (simp add: env2_def castHex24_def lowerHex_def id1_def hexdigit_def milk_def)
  have up: "db_up env2" by (simp add: env2_def)
  have p: "todoSchema_partial_parse (body ?req) = Inr \<lparr>patch_text = None, patch_completed = Some True\<rparr>"
    by (simp add: todoSchema_partial_parse_def object_issues_def text_issues_def
        completed_issues_def string_prop_def bool_prop_def field_def)
  have q: "todoSchema_partial_parse (body ?bad) = Inl (ZodError [TooSmall [''text''] 1 ''Text is required''])"
    by (simp add: todoSchema_partial_parse_def object_issues_def text_issues_def completed_issues_def)
  have g: "fst (handle_get env2 ?lreq store1) = Responded \<lparr>status = 200, resp_body = ok_body (JArr [])\<rparr>"
    by (simp add: handle_get_def Todo_find_def env2_def store1_def milk_def)
  note a = session_isolation [OF h1 h2 h3 h4 h5,
      of "\<lparr>patch_text = None, patch_completed = Some True\<rparr>" "ZodError []"]
  note b = session_isolation [OF h1 h2 h3 h4' h5',
      of "\<lparr>patch_text = None, patch_completed = None\<rparr>" "ZodError [TooSmall [''text''] 1 ''Text is required'']"]
  have "fst (handle_patch env2 ?req store1) = Responded not_found"
    and "fst (handle_delete env2 ?req store1) = Responded not_found"
    and "snd (handle_get env2 ?lreq store1) = store1"
    and "snd (handle_patch env2 ?req store1) = store1"
    and "snd (handle_delete env2 ?req store1) = store1"
    using a up p by simp_all
  moreover have "fst (handle_patch env2 ?bad store1) =
       Responded \<lparr>status = 400, resp_body = error_body (ZodError [TooSmall [''text''] 1 ''Text is required''])\<rparr>"
    and "snd (handle_patch env2 ?bad store1) = store1"
    using b q by simp_all
  ultimately show ?thesis
    using g by (simp add: prod_eq_iff)
qed

text \<open>
  Claim C2 as first stated lets every Update under another session answer 404. The body
  is validated before any document is looked up: an Update under \<open>s2\<close> with the body
  \<open>{text: ""}\<close>, addressed to the id of the item just created under \<open>s1\<close>, answers 400.
\<close>

theorem update_other_session_invalid_body:
  "fst (handle_patch env2 \<lparr>sessionID = ''s2'', body = JObj [(''text'', JStr [])], params_id = id1\<rparr>
         (snd (handle_post env1 \<lparr>sessionID = ''s1'', body = JObj [(''text'', JStr ''Buy milk'')], params_id = []\<rparr>
                 empty_store))) =
     Responded \<lparr>status = 400,
                resp_body = JObj [(''ok'', JBool False),
                                  (''error'', JArr [issueJSON (TooSmall [''text''] 1 ''Text is required'')])]\<rparr>
   \<and> fst (handle_patch env2 \<lparr>sessionID = ''s2'', body = JObj [(''text'', JStr [])], params_id = id1\<rparr>
         (snd (handle_post env1 \<lparr>sessionID = ''s1'', body = JObj [(''text'', JStr ''Buy milk'')], params_id = []\<rparr>
                 empty_store))) \<noteq> Responded not_found
   \<and> snd (handle_post env1 \<lparr>sessionID = ''s1'', body = JObj [(''text'', JStr ''Buy milk'')], params_id = []\<rparr>
            empty_store) = \<lparr>todos = [milk], sessions = []\<rparr>"
  by (simp add: handle_patch_def todoSchema_partial_parse_def object_issues_def text_issues_def
      completed_issues_def error_body_def not_found_def
      handle_post_def todoSchema_parse_def string_prop_def bool_prop_def field_def new_Todo_def
      save_def required_failures_def env1_def empty_store_def milk_def Let_def)


section \<open>What a response shows of an item\<close>

lemma toJSON_fields:
  "field ''text'' (toJSON u) = Some (JStr (todo_text u)) \<and>
   field ''completed'' (toJSON u) = Some (JBool (completed u)) \<and>
   field ''sessionId'' (toJSON u) = Some (JStr (sessionId u))"
  by (simp add: toJSON_def field_def)

lemma post_served:
  "set (served_items (fst (handle_post e req s))) \<subseteq> toJSON ` {u. sessionId u = sessionID req}"
proof (cases "todoSchema_parse (body req)")
  case (Inl err)
  then show ?thesis by (simp add: handle_post_def served_items_def)
next
  case (Inr d)
  show ?thesis
  proof (cases "save e (new_Todo e d (sessionID req)) s")
    case (Inl err)
    with Inr show ?thesis by (simp add: handle_post_def served_items_def Let_def)
  next
    case r: (Inr s')
    with Inr have "served_items (fst (handle_post e req s)) = [toJSON (new_Todo e d (sessionID req))]"
      by (simp add: handle_post_def served_items_def Let_def ok_body_def field_def toJSON_def)
    moreover have "sessionId (new_Todo e d (sessionID req)) = sessionID req"
      by (simp add: new_Todo_def)
    ultimately show ?thesis by simp
  qed
qed

lemma patch_served:
  "set (served_items (fst (handle_patch e req s))) \<subseteq> toJSON ` {u. sessionId u = sessionID req}"
proof
  fix j assume j: "j \<in> set (served_items (fst (handle_patch e req s)))"
  show "j \<in> toJSON ` {u. sessionId u = sessionID req}"
  proof (cases "todoSchema_partial_parse (body req)")
    case (Inl err)
    with j show ?thesis by (simp add: handle_patch_def served_items_def)
  next
    case (Inr p)
    show ?thesis
    proof (cases "findOneAndUpdate e (params_id req) (sessionID req) p s")
      case (Inl err)
      with Inr j show ?thesis by (simp add: handle_patch_def served_items_def)
    next
      case r: (Inr res)
      obtain found s' where res: "res = (found, s')" by (cases res)
      show ?thesis
      proof (cases found)
        case None
        with Inr r res j show ?thesis by (simp add: handle_patch_def served_items_def not_found_def)
      next
        case (Some t')
        with Inr r res j have jt: "j = toJSON t'"
          by (simp add: handle_patch_def served_items_def ok_body_def field_def toJSON_def)
        from r res Some obtain oid where
          "update_first (matches oid (sessionID req)) (apply_patch p) (todos s) = (Some t', todos s')"
          by (auto simp: findOneAndUpdate_def split: option.splits if_splits prod.splits)
        from update_first_some [OF this] obtain u where "matches oid (sessionID req) u" "t' = apply_patch p u"
          by blast
        then have "sessionId t' = sessionID req"
          by (simp add: matches_def apply_patch_def)
        with jt show ?thesis by simp
      qed
    qed
  qed
qed

text \<open>
  Claim C3, as amended. Every item serialised in a success response of List, Create or
  Update is a JSON object with \<open>text\<close> a string, \<open>completed\<close> a boolean and \<open>sessionId\<close>
  a string: the session identifier is part of the response body, and it is always the
  caller's own.
\<close>

theorem served_items_show_own_session:
  assumes "j \<in> set (served_items (fst (handle_get e req s)))
         \<or> j \<in> set (served_items (fst (handle_post e req s)))
         \<or> j \<in> set (served_items (fst (handle_patch e req s)))"
  shows "\<exists>txt c. field ''text'' j = Some (JStr txt) \<and> field ''completed'' j = Some (JBool c)
               \<and> field ''sessionId'' j = Some (JStr (sessionID req))"
proof -
  from assms get_served [of e req s] post_served [of e req s] patch_served [of e req s]
  obtain u where "j = toJSON u" "sessionId u = sessionID req"
    by blast
  with toJSON_fields [of u] show ?thesis by simp
qed

theorem served_items_show_own_session_witness:
  "toJSON milk \<in> set (served_items (fst (handle_post env1
       \<lparr>sessionID = ''s1'', body = JObj [(''text'', JStr ''Buy milk'')], params_id = []\<rparr> empty_store)))
   \<and> field ''text'' (toJSON milk) = Some (JStr ''Buy milk'')
   \<and> field ''completed'' (toJSON milk) = Some (JBool False)
   \<and> field ''sessionId'' (toJSON milk) = Some (JStr ''s1'')"
proof -
  let ?req = "\<lparr>sessionID = ''s1'', body = JObj [(''text'', JStr ''Buy milk'')], params_id = []\<rparr>"
  have h: "toJSON milk \<in> set (served_items (fst (handle_post env1 ?req empty_store)))"
    by (simp add: handle_post_def todoSchema_parse_def object_issues_def text_issues_def
      completed_issues_def string_prop_def bool_prop_def field_def new_Todo_def save_def
      required_failures_def env1_def empty_store_def ok_body_def toJSON_def Let_def
      served_items_def milk_def)
  then have "toJSON milk \<in> set (served_items (fst (handle_get env1 ?req empty_store)))
         \<or> toJSON milk \<in> set (served_items (fst (handle_post env1 ?req empty_store)))
         \<or> toJSON milk \<in> set (served_items (fst (handle_patch env1 ?req empty_store)))"
    by simp
  from served_items_show_own_session [OF this] h show ?thesis
    by (simp add: toJSON_def field_def milk_def)
qed

text \<open>
  Claim C3 as first stated keeps \<open>sessionId\<close> out of every response body. The handlers
  send the stored document whole: the response to a Create carries \<open>sessionId\<close>.
\<close>

theorem create_response_shows_sessionId:
  "fst (handle_post env1 \<lparr>sessionID = ''s1'', body = JObj [(''text'', JStr ''Buy milk'')], params_id = []\<rparr>
          empty_store) =
     Responded \<lparr>status = 200, resp_body = JObj [(''ok'', JBool True), (''result'', toJSON milk)]\<rparr>
   \<and> toJSON milk = JObj [(''_id'', JStr id1), (''text'', JStr ''Buy milk''), (''completed'', JBool False),
                         (''sessionId'', JStr ''s1''), (''__v'', JNum 0)]
   \<and> field ''sessionId'' (toJSON milk) = Some (JStr ''s1'')"
  by (simp add: handle_post_def todoSchema_parse_def object_issues_def text_issues_def
      completed_issues_def string_prop_def bool_prop_def field_def new_Todo_def save_def
      required_failures_def env1_def empty_store_def ok_body_def toJSON_def Let_def milk_def)


section \<open>Errors on the request path\<close>

text \<open>
  The handlers of Create and Update hold every call in a \<^verbatim>\<open>try\<close>: whatever fails, they
  respond. The handlers of List and Delete have no \<^verbatim>\<open>try\<close>: Delete ends with the error
  unhandled exactly when the cast of the route parameter or the database fails, List
  exactly when it has a session identifier and the database fails.
\<close>

lemma post_always_responds: "\<exists>r. fst (handle_post e req s) = Responded r"
  by (simp add: handle_post_def Let_def split: sum.splits)

lemma patch_always_responds: "\<exists>r. fst (handle_patch e req s) = Responded r"
proof (cases "todoSchema_partial_parse (body req)")
  case (Inl err)
  then show ?thesis by (simp add: handle_patch_def)
next
  case (Inr p)
  show ?thesis
  proof (cases "findOneAndUpdate e (params_id req) (sessionID req) p s")
    case (Inl err)
    with Inr show ?thesis by (simp add: handle_patch_def)
  next
    case r: (Inr res)
    obtain found s' where "res = (found, s')" by (cases res)
    with Inr r show ?thesis by (cases found) (simp_all add: handle_patch_def)
  qed
qed

lemma delete_unhandled_iff:
  "(\<exists>err. fst (handle_delete e req s) = Unhandled err) \<longleftrightarrow>
   (castObjectId e (params_id req) = None \<or> \<not> db_up e)"
proof (cases "castObjectId e (params_id req)")
  case None
  then show ?thesis by (simp add: handle_delete_def findOneAndDelete_def)
next
  case (Some oid)
  obtain found ts where "delete_first (matches oid (sessionID req)) (todos s) = (found, ts)"
    by (cases "delete_first (matches oid (sessionID req)) (todos s)")
  with Some show ?thesis
    by (cases found) (simp_all add: handle_delete_def findOneAndDelete_def)
qed

lemma get_unhandled_iff:
  "(\<exists>err. fst (handle_get e req s) = Unhandled err) \<longleftrightarrow> (sessionID req \<noteq> [] \<and> \<not> db_up e)"
  by (auto simp: handle_get_def Todo_find_def)

text \<open>
  Claim C8 has every error of the four operations caught by the handler and turned
  into a response. Delete with a route parameter that is no ObjectId ends with the cast
  error unhandled and writes no response; so do List and Delete when the database fails.
\<close>

theorem delete_cast_error_unhandled:
  "handle_delete env1 \<lparr>sessionID = ''s1'', body = JObj [], params_id = ''abc''\<rparr> store1 =
     (Unhandled (CastError ''abc''), store1)
   \<and> handle_get env_down \<lparr>sessionID = ''s1'', body = JObj [], params_id = []\<rparr> store1 =
     (Unhandled down, store1)
   \<and> handle_delete env_down \<lparr>sessionID = ''s1'', body = JObj [], params_id = id1\<rparr> store1 =
     (Unhandled down, store1)"
  by (simp add: handle_delete_def findOneAndDelete_def handle_get_def Todo_find_def
      env1_def env_down_def castHex24_def lowerHex_def id1_def hexdigit_def)


section \<open>Errors in the sweep\<close>

lemma sweep_with_fulfilled: "fst (sweep_with listing cleanup now s) = Fulfilled"
  by (simp add: sweep_with_def split: prod.splits sum.splits)

lemma schedule_runs_all:
  "(\<And>now s. fst (cb now s) = Fulfilled) \<Longrightarrow> fst (schedule cb ticks s) = length ticks"
proof (induction ticks arbitrary: s)
  case Nil
  then show ?case by simp
next
  case (Cons now later)
  obtain r out s' where c: "cb now s = (r, out, s')" by (cases "cb now s")
  with Cons.prems [of now s] have r: "r = Fulfilled" by simp
  obtain n out' s'' where k: "schedule cb later s' = (n, out', s'')" by (cases "schedule cb later s'")
  with Cons.IH [OF Cons.prems, of s'] have "n = length later" by simp
  with c r k show ?case by simp
qed

lemma cron_callback_throws:
  "cron_callback e cleanup now s =
     (Fulfilled, [ConsoleError (TypeError ''Promise constructor cannot be invoked without new'')], s)"
  by (simp add: cron_callback_def sweep_with_def sweep_body_def getAllSessions_def Promise_call_def)

text \<open>
  Claim C9. Whatever the enumeration of the sessions and the cleanup of an expired
  session do, the promise of the callback is fulfilled: an error raised in its body is
  written to the console and nothing else, and every tick of the schedule runs. The
  same holds of the callback as scheduled, whose enumeration always throws.
\<close>

theorem sweep_errors_are_logged:
  "fst (sweep_with listing cleanup now s) = Fulfilled
   \<and> (fst (sweep_body listing cleanup now s) = Inl err \<longrightarrow>
        fst (snd (sweep_with listing cleanup now s)) = [ConsoleError err])
   \<and> fst (schedule (sweep_with listing cleanup) ticks s) = length ticks
   \<and> fst (cron_callback e cleanup now s) = Fulfilled
   \<and> fst (schedule (cron_callback e cleanup) ticks s) = length ticks"
proof (intro conjI impI)
  show "fst (sweep_with listing cleanup now s) = Fulfilled"
    by (rule sweep_with_fulfilled)
  show "fst (schedule (sweep_with listing cleanup) ticks s) = length ticks"
    by (rule schedule_runs_all) (rule sweep_with_fulfilled)
  show "fst (cron_callback e cleanup now s) = Fulfilled"
    by (simp add: cron_callback_throws)
  show "fst (schedule (cron_callback e cleanup) ticks s) = length ticks"
    by (rule schedule_runs_all) (simp add: cron_callback_throws)
next
  assume "fst (sweep_body listing cleanup now s) = Inl err"
  then show "fst (snd (sweep_with listing cleanup now s)) = [ConsoleError err]"
    by (cases "sweep_body listing cleanup now s") (simp add: sweep_with_def)
qed

theorem sweep_errors_are_logged_witness:
  "fst (sweep_body (store_all env1) failing_cleanup 2000 store1) = Inl down
   \<and> sweep_with (store_all env1) failing_cleanup 2000 store1 = (Fulfilled, [ConsoleError down], store1)
   \<and> fst (schedule (sweep_with (store_all env1) failing_cleanup) [1000, 2000, 3000] store1) = 3
   \<and> fst (schedule (cron_callback env1 failing_cleanup) [1000, 2000, 3000] store1) = 3"
proof -
  have h: "fst (sweep_body (store_all env1) failing_cleanup 2000 store1) = Inl down"
    by (simp add: sweep_body_def store_all_def env1_def store1_def expiredSessionIds_def
        failing_cleanup_def Let_def)
  have s: "snd (snd (sweep_with (store_all env1) failing_cleanup 2000 store1)) = store1"
    by (simp add: sweep_with_def sweep_body_def store_all_def env1_def store1_def expiredSessionIds_def
        failing_cleanup_def Let_def)
  from sweep_errors_are_logged [of "store_all env1" failing_cleanup 2000 store1 down "[1000, 2000, 3000]" env1]
    h s show ?thesis
    by (simp add: prod_eq_iff)
qed

text \<open>
  Claim C1 has one run of the callback remove every expired session and its items. At
  time 2000 the session \<open>s1\<close> of \<open>store1\<close>, which expired at 1000 and owns one item, is
  expired; the callback ends in its \<^verbatim>\<open>catch\<close> with the TypeError of \<^verbatim>\<open>getAllSessions\<close>,
  and the session and its item are still in their stores.
\<close>

theorem sweep_leaves_expired_session:
  "cron_callback env1 cleanup 2000 store1 =
     (Fulfilled, [ConsoleError (TypeError ''Promise constructor cannot be invoked without new'')], store1)
   \<and> expiredSessionIds 2000 (sessions store1) = [''s1'']
   \<and> \<lparr>sess_id = ''s1'', expires = 1000\<rparr> \<in> set (sessions (snd (snd (cron_callback env1 cleanup 2000 store1))))
   \<and> milk \<in> set (todos (snd (snd (cron_callback env1 cleanup 2000 store1))))
   \<and> sessionId milk = ''s1''"
  by (simp add: cron_callback_throws expiredSessionIds_def store1_def milk_def)


section \<open>Ownership of a created item\<close>

lemma post_owner:
  "snd (handle_post e req s) = s
      \<or> (\<exists>t. snd (handle_post e req s) = s\<lparr>todos := todos s @ [t]\<rparr> \<and> sessionId t = sessionID req)"
proof (cases "todoSchema_parse (body req)")
  case (Inl err)
  then have "snd (handle_post e req s) = s" by (simp add: handle_post_def)
  then show ?thesis by (rule disjI1)
next
  case (Inr d)
  show ?thesis
  proof (cases "save e (new_Todo e d (sessionID req)) s")
    case (Inl err)
    with Inr have "snd (handle_post e req s) = s" by (simp add: handle_post_def Let_def)
    then show ?thesis by (rule disjI1)
  next
    case r: (Inr s')
    then have s': "s' = s\<lparr>todos := todos s @ [new_Todo e d (sessionID req)]\<rparr>"
      by (simp add: save_def split: if_splits)
    from Inr r have "snd (handle_post e req s) = s'" by (simp add: handle_post_def Let_def)
    with s' have "snd (handle_post e req s) = s\<lparr>todos := todos s @ [new_Todo e d (sessionID req)]\<rparr>
        \<and> sessionId (new_Todo e d (sessionID req)) = sessionID req"
      by (simp add: new_Todo_def)
    then have "\<exists>t. snd (handle_post e req s) = s\<lparr>todos := todos s @ [t]\<rparr> \<and> sessionId t = sessionID req"
      by (rule exI [where x = "new_Todo e d (sessionID req)"])
    then show ?thesis by (rule disjI2)
  qed
qed

lemma post_reads_two_keys:
  assumes "map_of kvs ''text'' = map_of kvs' ''text'' \<and> map_of kvs ''completed'' = map_of kvs' ''completed''"
  shows "handle_post e (req\<lparr>body := JObj kvs\<rparr>) s = handle_post e (req\<lparr>body := JObj kvs'\<rparr>) s"
proof -
  have "todoSchema_parse (JObj kvs) = todoSchema_parse (JObj kvs')"
    using assms by (intro parse_reads_two_keys) simp_all
  moreover have "body (req\<lparr>body := JObj kvs\<rparr>) = JObj kvs" "body (req\<lparr>body := JObj kvs'\<rparr>) = JObj kvs'"
    "sessionID (req\<lparr>body := JObj kvs\<rparr>) = sessionID (req\<lparr>body := JObj kvs'\<rparr>)"
    by simp_all
  ultimately show ?thesis
    unfolding handle_post_def by (simp only:)
qed

text \<open>
  Claim C10. Whatever the body of a Create, the request either leaves the store as it
  was or appends one item whose \<open>sessionId\<close> is the caller's session identifier. The
  outcome depends on the body through its keys \<open>text\<close> and \<open>completed\<close> only: a
  \<open>sessionId\<close>, or any other key, sent in the body changes nothing.
\<close>

theorem create_owner_is_caller:
  "(snd (handle_post e req s) = s
      \<or> (\<exists>t. snd (handle_post e req s) = s\<lparr>todos := todos s @ [t]\<rparr> \<and> sessionId t = sessionID req))
   \<and> (map_of kvs ''text'' = map_of kvs' ''text'' \<and> map_of kvs ''completed'' = map_of kvs' ''completed'' \<longrightarrow>
        handle_post e (req\<lparr>body := JObj kvs\<rparr>) s = handle_post e (req\<lparr>body := JObj kvs'\<rparr>) s)"
  using post_owner [of e req s] post_reads_two_keys [of kvs kvs' e req s] by (intro conjI impI)

theorem create_owner_is_caller_witness:
  "snd (handle_post env1
          \<lparr>sessionID = ''s1'',
           body = JObj [(''text'', JStr ''Buy milk''), (''sessionId'', JStr ''s2''), (''_id'', JStr id2)],
           params_id = []\<rparr> empty_store) = \<lparr>todos = [milk], sessions = []\<rparr>
   \<and> sessionId milk = ''s1''
   \<and> handle_post env1
          \<lparr>sessionID = ''s1'',
           body = JObj [(''text'', JStr ''Buy milk''), (''sessionId'', JStr ''s2''), (''_id'', JStr id2)],
           params_id = []\<rparr> empty_store =
     handle_post env1 \<lparr>sessionID = ''s1'', body = JObj [(''text'', JStr ''Buy milk'')], params_id = []\<rparr> empty_store"
proof -
  let ?forged = "[(''text'', JStr ''Buy milk''), (''sessionId'', JStr ''s2''), (''_id'', JStr id2)]"
  let ?plain = "[(''text'', JStr ''Buy milk'')]"
  let ?req = "\<lparr>sessionID = ''s1'', body = JObj ?forged, params_id = []\<rparr>"
  have h: "map_of ?forged ''text'' = map_of ?plain ''text'' \<and> map_of ?forged ''completed'' = map_of ?plain ''completed''"
    by simp
  have plain: "handle_post env1 \<lparr>sessionID = ''s1'', body = JObj ?plain, params_id = []\<rparr> empty_store =
      (Responded \<lparr>status = 200, resp_body = ok_body (toJSON milk)\<rparr>, \<lparr>todos = [milk], sessions = []\<rparr>)"
    by (simp add: handle_post_def todoSchema_parse_def object_issues_def text_issues_def
        completed_issues_def string_prop_def bool_prop_def field_def new_Todo_def save_def
        required_failures_def env1_def empty_store_def milk_def Let_def)
  from create_owner_is_caller [of env1 ?req empty_store ?forged ?plain] h plain
  show ?thesis by (simp add: milk_def)
qed

end
